theory Spec2Isabelle
  imports Main "HOL-Library.Word"
begin

section \<open>The code generator factory of \<^verbatim>\<open>codegen/code_generator_factory.h\<close>\<close>

text \<open>
  The header defines one function, \<^verbatim>\<open>CreateCodeGenerator\<close>. It asks an
  \<^verbatim>\<open>ExprVisitor\<close> for an integer tag, switches on the tag, and stores in
  \<^verbatim>\<open>*out\<close> either a newly allocated generator of one of three classes or
  \<^verbatim>\<open>nullptr\<close>. This theory embeds that function with explicit state passing and
  proves the properties the specification states about it.
\<close>

subsection \<open>Data\<close>

text \<open>
  A C++ \<^verbatim>\<open>int\<close>: 32 bits. The function only stores and compares tags, so the
  signed reading of the bits plays no part.
\<close>

type_synonym cint = "32 word"

text \<open>
  \<^verbatim>\<open>arrow::Status\<close> (Arrow library): a code and a message. \<^verbatim>\<open>ok()\<close> holds
  exactly for the code \<^verbatim>\<open>OK\<close>; \<^verbatim>\<open>Status::TypeError(m)\<close> builds a status with the
  code \<^verbatim>\<open>TypeError\<close> and the message \<open>m\<close>.
\<close>

datatype StatusCode =
    OK | OutOfMemory | KeyError | TypeError | Invalid | IOError
  | CapacityError | IndexError | UnknownError | NotImplemented | SerializationError

datatype Status = Status (code: StatusCode) (message: string)

definition ok :: "Status \<Rightarrow> bool" where
  "ok st = (code st = OK)"

definition Status_TypeError :: "string \<Rightarrow> Status" where
  "Status_TypeError m = Status TypeError m"

text \<open>
  The three case labels \<^verbatim>\<open>ARROW_COMPUTE\<close>, \<^verbatim>\<open>GANDIVA\<close> and \<^verbatim>\<open>COMPUTE_EXT\<close> are
  constants of an included header (\<^verbatim>\<open>codegen/expr_visitor.h\<close> or one it includes)
  whose text is not available, so their values are a parameter of the model. C++
  rejects a switch with two equal case labels, hence a program that compiles has
  \<open>case_labels_distinct\<close>.
\<close>

record backend_tags =
  ARROW_COMPUTE :: cint
  GANDIVA :: cint
  COMPUTE_EXT :: cint

definition case_labels_distinct :: "backend_tags \<Rightarrow> bool" where
  "case_labels_distinct tg = distinct [ARROW_COMPUTE tg, GANDIVA tg, COMPUTE_EXT tg]"

definition recognized :: "backend_tags \<Rightarrow> cint \<Rightarrow> bool" where
  "recognized tg t = (t = ARROW_COMPUTE tg \<or> t = GANDIVA tg \<or> t = COMPUTE_EXT tg)"

text \<open>
  A generator object. The three classes are opaque here; what the factory decides is
  which constructor runs and on which arguments, and that is what a value of this type
  records. The type variables stand for \<^verbatim>\<open>shared_ptr<arrow::Schema>\<close>,
  \<^verbatim>\<open>shared_ptr<gandiva::Expression>\<close> and \<^verbatim>\<open>shared_ptr<arrow::Field>\<close>.
  Allocation and the constructors are taken to complete: no exception is modelled.
\<close>

datatype ('s, 'e, 'f) CodeGenerator =
    ArrowComputeCodeGenerator 's "'e list" "'f list"
  | GandivaCodeGenerator 's "'e list" "'f list"
  | ComputeExtCodeGenerator 's "'e list" "'f list"

text \<open>
  The program state the function can touch.
  \<^item> \<open>heap\<close>: the generator objects allocated by \<^verbatim>\<open>std::make_shared\<close> so far, in
    order of allocation; the address of an object is its index. The list is a log:
    an object stays in it when it is destroyed, and an address is never reused. Who
    owns an object, and so whether it is still alive, is kept apart (see below).
  \<^item> \<open>out\<close>: the \<^verbatim>\<open>shared_ptr<CodeGenerator>\<close> the parameter \<^verbatim>\<open>out\<close> points to;
    \<open>None\<close> is \<^verbatim>\<open>nullptr\<close>.
  \<^item> \<open>globals\<close>: all other state of the program (global variables, streams, the
    objects behind the shared pointers passed in).
\<close>

type_synonym addr = nat

record ('s, 'e, 'f, 'g) world =
  heap :: "('s, 'e, 'f) CodeGenerator list"
  out :: "addr option"
  globals :: 'g

text \<open>
  Reading \<^verbatim>\<open>codegen_type\<close> when nothing was stored in it is undefined behaviour; the
  model stops with this fault instead of inventing a value.
\<close>

datatype fault = UninitialisedRead

subsection \<open>Operations\<close>

text \<open>\<^verbatim>\<open>std::make_shared<T>(...)\<close>: allocate the object at the next free address.\<close>

definition make_shared ::
  "('s, 'e, 'f) CodeGenerator \<Rightarrow> ('s, 'e, 'f, 'g) world \<Rightarrow> addr \<times> ('s, 'e, 'f, 'g) world" where
  "make_shared obj w = (length (heap w), w\<lparr>heap := heap w @ [obj]\<rparr>)"

text \<open>
  \<^verbatim>\<open>ExprVisitor::create(exprs_vector, &codegen_type)\<close> is declared in
  \<^verbatim>\<open>codegen/expr_visitor.h\<close>, whose text is not available, so the classifier is a
  parameter \<open>create\<close>. It is called on a visitor constructed in the line before, with
  the expressions and the address of the local, uninitialised \<^verbatim>\<open>int codegen_type\<close>;
  it may depend on and change the rest of the program state. It yields its status, what it left in
  \<^verbatim>\<open>codegen_type\<close> (\<open>Some v\<close> when it stored \<open>v\<close>, \<open>None\<close> when it stored nothing) and
  the new rest of the state.
\<close>

type_synonym ('e, 'g) classifier = "'e list \<Rightarrow> 'g \<Rightarrow> (Status \<times> cint option) \<times> 'g"

text \<open>
  \<^verbatim>\<open>CreateCodeGenerator\<close>, statement by statement: the call of the classifier, the read
  of \<^verbatim>\<open>codegen_type\<close> by the switch, then the four branches in the order of the source.
\<close>

definition CreateCodeGenerator ::
  "backend_tags \<Rightarrow> ('e, 'g) classifier \<Rightarrow> 's \<Rightarrow> 'e list \<Rightarrow> 'f list \<Rightarrow>
   ('s, 'e, 'f, 'g) world \<Rightarrow> fault + (Status \<times> ('s, 'e, 'f, 'g) world)" where
  "CreateCodeGenerator tg create schema_ptr exprs_vector ret_types w =
     (case create exprs_vector (globals w) of
        ((status, codegen_type), g) \<Rightarrow>
          (case codegen_type of
             None \<Rightarrow> Inl UninitialisedRead
           | Some t \<Rightarrow>
               (let w1 = w\<lparr>globals := g\<rparr> in
                if t = ARROW_COMPUTE tg then
                  (case make_shared (ArrowComputeCodeGenerator schema_ptr exprs_vector ret_types) w1 of
                     (a, w2) \<Rightarrow> Inr (status, w2\<lparr>out := Some a\<rparr>))
                else if t = GANDIVA tg then
                  (case make_shared (GandivaCodeGenerator schema_ptr exprs_vector ret_types) w1 of
                     (a, w2) \<Rightarrow> Inr (status, w2\<lparr>out := Some a\<rparr>))
                else if t = COMPUTE_EXT tg then
                  (case make_shared (ComputeExtCodeGenerator schema_ptr exprs_vector ret_types) w1 of
                     (a, w2) \<Rightarrow> Inr (status, w2\<lparr>out := Some a\<rparr>))
                else
                  Inr (Status_TypeError ''Unrecognized expression type.'', w1\<lparr>out := None\<rparr>))))"

text \<open>The generator class the switch selects for a tag, \<open>None\<close> for the default branch.\<close>

definition selected ::
  "backend_tags \<Rightarrow> cint \<Rightarrow> 's \<Rightarrow> 'e list \<Rightarrow> 'f list \<Rightarrow> ('s, 'e, 'f) CodeGenerator option" where
  "selected tg t s es fs =
     (if t = ARROW_COMPUTE tg then Some (ArrowComputeCodeGenerator s es fs)
      else if t = GANDIVA tg then Some (GandivaCodeGenerator s es fs)
      else if t = COMPUTE_EXT tg then Some (ComputeExtCodeGenerator s es fs)
      else None)"

subsection \<open>The classifier as the specification describes it\<close>

text \<open>
  Modelled from the spec: the tag of the data model (section 3), one of the three
  backends or "unclassified". The declaration behind the integer tag is not available.
\<close>

datatype BackendTag = NativeVectorized | JitCompiled | Extended | Unclassified

text \<open>
  Modelled from the spec: what classification consults (section 4.1). The expression
  representation and the operator registries are not available, so the three tests and
  the text of the failure are parameters:
  \<^item> \<open>native_only e\<close>: \<open>e\<close> uses only operators backed by native vectorized kernels;
  \<^item> \<open>jit_expressible es\<close>: the batch is expressible in the JIT-compiled language;
  \<^item> \<open>extended_only e\<close>: \<open>e\<close> uses a function known only to the extended registry.
\<close>

record 'e vocabulary =
  native_only :: "'e \<Rightarrow> bool"
  jit_expressible :: "'e list \<Rightarrow> bool"
  extended_only :: "'e \<Rightarrow> bool"
  failure_text :: string

text \<open>
  Modelled from the spec: \<^verbatim>\<open>classify(expressions) -> (BackendTag, Status)\<close> of
  section 4.1, standing for the body of \<^verbatim>\<open>ExprVisitor::create\<close>, which is not
  available. The whole batch gets one tag, in the precedence NativeVectorized,
  JitCompiled, Extended; otherwise classification fails with a TypeError-kind status.
  By section 3, exactly one tag is produced per call, "unclassified" on failure.
\<close>

definition classify :: "'e vocabulary \<Rightarrow> 'e list \<Rightarrow> BackendTag \<times> Status" where
  "classify r es =
     (if list_all (native_only r) es then (NativeVectorized, Status OK [])
      else if jit_expressible r es then (JitCompiled, Status OK [])
      else if list_ex (extended_only r) es then (Extended, Status OK [])
      else (Unclassified, Status_TypeError (failure_text r)))"

text \<open>
  Modelled from the spec: the integer the classifier stores for a tag. The three backends
  are the three case labels; \<open>u\<close> is whatever integer stands for "unclassified".
\<close>

definition tag_value :: "backend_tags \<Rightarrow> cint \<Rightarrow> BackendTag \<Rightarrow> cint" where
  "tag_value tg u t =
     (case t of
        NativeVectorized \<Rightarrow> ARROW_COMPUTE tg
      | JitCompiled \<Rightarrow> GANDIVA tg
      | Extended \<Rightarrow> COMPUTE_EXT tg
      | Unclassified \<Rightarrow> u)"

text \<open>
  Modelled from the spec: \<^verbatim>\<open>ExprVisitor::create\<close> as a classifier in the sense of
  \<open>CreateCodeGenerator\<close>. It stores the tag of \<open>classify\<close> on every path and, by
  section 5 (in-memory inspection only), leaves the rest of the state alone.
\<close>

definition spec_create :: "backend_tags \<Rightarrow> cint \<Rightarrow> 'e vocabulary \<Rightarrow> ('e, 'g) classifier" where
  "spec_create tg u r es g =
     (case classify r es of (t, st) \<Rightarrow> ((st, Some (tag_value tg u t)), g))"

subsection \<open>Ownership, and the call as the caller sees it\<close>

text \<open>
  A \<^verbatim>\<open>shared_ptr\<close> that refers to an object owns it; the use count of an object is the
  number of its owners, and the object is destroyed when the count falls to zero. The
  counts are kept beside the allocation log, one per address. A handle that gives up
  what it refers to (\<open>release\<close>) takes one owner from that object.
\<close>

definition release :: "addr option \<Rightarrow> nat list \<Rightarrow> nat list" where
  "release h uc =
     (case h of
        None \<Rightarrow> uc
      | Some a \<Rightarrow> if a < length uc then uc[a := uc ! a - 1] else uc)"

text \<open>A handle is null or refers to an allocated object.\<close>

definition valid_handle :: "nat list \<Rightarrow> addr option \<Rightarrow> bool" where
  "valid_handle uc h = (case h of None \<Rightarrow> True | Some a \<Rightarrow> a < length uc)"

text \<open>
  A caller: its variables holding the three arguments, the state the function works on,
  and the use counts. In a consistent state every allocated object has a count and
  \<^verbatim>\<open>*out\<close> is a valid handle.
\<close>

record ('s, 'e, 'f, 'g) program =
  caller_schema :: 's
  caller_exprs :: "'e list"
  caller_ret_types :: "'f list"
  store :: "('s, 'e, 'f, 'g) world"
  use_count :: "nat list"

definition consistent :: "('s, 'e, 'f, 'g) program \<Rightarrow> bool" where
  "consistent p =
     (length (use_count p) = length (heap (store p)) \<and>
      valid_handle (use_count p) (out (store p)))"

text \<open>
  The statement \<^verbatim>\<open>CreateCodeGenerator(schema, exprs, ret_types, &h)\<close> in the caller.
  The three arguments are passed by value: the function works on copies, and the
  caller's variables are not within its reach. In a case of the switch,
  \<^verbatim>\<open>*out = std::make_shared<...>(...)\<close> creates the object with one owner, the
  temporary, which the assignment moves into \<^verbatim>\<open>*out\<close>; the assignment then releases
  what \<^verbatim>\<open>*out\<close> owned before. In the default branch \<^verbatim>\<open>*out = nullptr\<close> only releases.
  So every object the call allocated gets the count one, and the handle \<^verbatim>\<open>*out\<close> held
  on entry is released.
\<close>

definition call_CreateCodeGenerator ::
  "backend_tags \<Rightarrow> ('e, 'g) classifier \<Rightarrow> ('s, 'e, 'f, 'g) program \<Rightarrow>
   fault + (Status \<times> ('s, 'e, 'f, 'g) program)" where
  "call_CreateCodeGenerator tg create p =
     (case CreateCodeGenerator tg create
             (caller_schema p) (caller_exprs p) (caller_ret_types p) (store p) of
        Inl f \<Rightarrow> Inl f
      | Inr (status, w') \<Rightarrow>
          Inr (status,
               p\<lparr>store := w',
                 use_count :=
                   release (out (store p))
                     (use_count p @
                      replicate (length (heap w') - length (heap (store p))) 1)\<rparr>))"

text \<open>
  Two successive calls with the caller's arguments, each through a handle variable of
  its own:
  \<^verbatim>\<open>CreateCodeGenerator(schema, exprs, ret_types, &first);
  CreateCodeGenerator(schema, exprs, ret_types, &second);\<close>
  On entry \<^verbatim>\<open>first\<close> holds the handle \<open>out\<close> of the state and \<^verbatim>\<open>second\<close> holds the
  handle \<open>second\<close>. The second call starts in the state the first one left, with
  \<^verbatim>\<open>out\<close> pointing to \<^verbatim>\<open>second\<close>. The result keeps the status of each call and the
  handle each call left in its variable.
\<close>

definition call_twice ::
  "backend_tags \<Rightarrow> ('e, 'g) classifier \<Rightarrow> addr option \<Rightarrow> ('s, 'e, 'f, 'g) program \<Rightarrow>
   fault + ((Status \<times> addr option) \<times> (Status \<times> addr option) \<times> ('s, 'e, 'f, 'g) program)" where
  "call_twice tg create second p =
     (case call_CreateCodeGenerator tg create p of
        Inl f \<Rightarrow> Inl f
      | Inr (st1, p1) \<Rightarrow>
          (case call_CreateCodeGenerator tg create (p1\<lparr>store := (store p1)\<lparr>out := second\<rparr>\<rparr>) of
             Inl f \<Rightarrow> Inl f
           | Inr (st2, p2) \<Rightarrow> Inr ((st1, out (store p1)), (st2, out (store p2)), p2)))"

text \<open>
  Modelled from the spec: \<^verbatim>\<open>ExprVisitor::create\<close>, whose body is not available, as a
  classifier that only inspects the batch. By section 4.1 the classification is a
  function of the expressions, and by section 5 it performs in-memory inspection only;
  \<open>f\<close> is that function, and the rest of the state is left as it is.
\<close>

definition inspecting :: "('e list \<Rightarrow> Status \<times> cint option) \<Rightarrow> ('e, 'g) classifier" where
  "inspecting f es g = (f es, g)"

subsection \<open>Sample values for closed instances\<close>

text \<open>
  A classifier that answers every batch with the same status and the same content of
  \<^verbatim>\<open>codegen_type\<close> and leaves the rest of the state alone; three distinct labels; a
  state with nothing allocated; a state holding one generator that \<^verbatim>\<open>*out\<close> refers to.
\<close>

definition const_classifier :: "Status \<Rightarrow> cint option \<Rightarrow> ('e, 'g) classifier" where
  "const_classifier st c es g = ((st, c), g)"

definition sample_tags :: backend_tags where
  "sample_tags = \<lparr>ARROW_COMPUTE = 1, GANDIVA = 2, COMPUTE_EXT = 3\<rparr>"

definition empty_world :: "(string, string, string, unit) world" where
  "empty_world = \<lparr>heap = [], out = None, globals = ()\<rparr>"

definition used_world :: "(string, string, string, unit) world" where
  "used_world =
     \<lparr>heap = [GandivaCodeGenerator ''t'' [''x * y''] [''prod'']], out = Some 0, globals = ()\<rparr>"

definition sample_vocabulary :: "string vocabulary" where
  "sample_vocabulary =
     \<lparr>native_only = (\<lambda>e. e = ''a + b''),
      jit_expressible = (\<lambda>es. False),
      extended_only = (\<lambda>e. e = ''custom_udf(a)''),
      failure_text = ''no backend''\<rparr>"

text \<open>
  An inspection that accepts \<^verbatim>\<open>x * y\<close> for the second label and fails on every other
  batch, storing an unrecognized tag; a classifier that changes the rest of the state
  (it counts its calls); a caller whose handle is the only owner of an earlier
  generator; a caller with a null handle and nothing allocated.
\<close>

definition sample_inspection :: "string list \<Rightarrow> Status \<times> cint option" where
  "sample_inspection es =
     (if es = [''x * y''] then (Status OK [], Some 2)
      else (Status TypeError ''no backend'', Some 7))"

definition counting_classifier :: "(string, nat) classifier" where
  "counting_classifier es g = ((Status OK [], Some 3), Suc g)"

definition owning_program :: "(string, string, string, nat) program" where
  "owning_program =
     \<lparr>caller_schema = ''t'', caller_exprs = [''x * y''], caller_ret_types = [''prod''],
      store = \<lparr>heap = [ComputeExtCodeGenerator ''u'' [''custom_udf(a)''] [''r'']],
               out = Some 0, globals = 5\<rparr>,
      use_count = [1]\<rparr>"

definition fresh_program :: "(string, string, string, nat) program" where
  "fresh_program =
     \<lparr>caller_schema = ''t'', caller_exprs = [''undefined_function(a)''],
      caller_ret_types = [''r''],
      store = \<lparr>heap = [], out = None, globals = 5\<rparr>,
      use_count = []\<rparr>"

subsection \<open>What a call does, by branch\<close>

lemma CreateCodeGenerator_unwritten:
  "create es (globals w) = ((st, None), g) \<Longrightarrow>
   CreateCodeGenerator tg create s es fs w = Inl UninitialisedRead"
  by (simp add: CreateCodeGenerator_def)

lemma CreateCodeGenerator_construct:
  "create es (globals w) = ((st, Some t), g) \<Longrightarrow> selected tg t s es fs = Some obj \<Longrightarrow>
   CreateCodeGenerator tg create s es fs w =
     Inr (st, \<lparr>heap = heap w @ [obj], out = Some (length (heap w)), globals = g\<rparr>)"
  by (auto simp: CreateCodeGenerator_def selected_def make_shared_def Let_def split: if_splits)

lemma CreateCodeGenerator_default:
  "create es (globals w) = ((st, Some t), g) \<Longrightarrow> selected tg t s es fs = None \<Longrightarrow>
   CreateCodeGenerator tg create s es fs w =
     Inr (Status_TypeError ''Unrecognized expression type.'',
          \<lparr>heap = heap w, out = None, globals = g\<rparr>)"
  by (auto simp: CreateCodeGenerator_def selected_def Let_def split: if_splits)

lemma selected_None: "selected tg t s es fs = None \<longleftrightarrow> \<not> recognized tg t"
  by (simp add: selected_def recognized_def)

lemma selected_Some:
  "recognized tg t \<Longrightarrow>
   \<exists>obj. selected tg t s es fs = Some obj \<and>
     obj \<in> {ArrowComputeCodeGenerator s es fs, GandivaCodeGenerator s es fs,
            ComputeExtCodeGenerator s es fs}"
  by (auto simp: selected_def recognized_def)

lemma selected_cases:
  "case_labels_distinct tg \<Longrightarrow>
   selected tg (ARROW_COMPUTE tg) s es fs = Some (ArrowComputeCodeGenerator s es fs) \<and>
   selected tg (GANDIVA tg) s es fs = Some (GandivaCodeGenerator s es fs) \<and>
   selected tg (COMPUTE_EXT tg) s es fs = Some (ComputeExtCodeGenerator s es fs)"
  by (auto simp: selected_def case_labels_distinct_def)

text \<open>The value \<^verbatim>\<open>*out\<close> held before the call plays no part in the call.\<close>

lemma CreateCodeGenerator_out_irrelevant:
  "CreateCodeGenerator tg create s es fs (w\<lparr>out := x\<rparr>) =
   CreateCodeGenerator tg create s es fs w"
  by (simp add: CreateCodeGenerator_def make_shared_def Let_def split: prod.splits option.splits)

text \<open>Every call that returns went through the classifier storing a tag.\<close>

lemma CreateCodeGenerator_returns:
  assumes "CreateCodeGenerator tg create s es fs w = Inr (st', w')"
  obtains st t g where "create es (globals w) = ((st, Some t), g)"
  using assms
  by (cases "create es (globals w)")
     (auto simp: CreateCodeGenerator_def split: option.splits)

text \<open>The two ways a call returns.\<close>

lemma CreateCodeGenerator_Inr_cases:
  assumes "CreateCodeGenerator tg create s es fs w = Inr (st', w')"
  obtains (constructed) st t g obj where
      "create es (globals w) = ((st, Some t), g)" and "recognized tg t"
      and "selected tg t s es fs = Some obj" and "st' = st"
      and "w' = \<lparr>heap = heap w @ [obj], out = Some (length (heap w)), globals = g\<rparr>"
  | (default) st t g where
      "create es (globals w) = ((st, Some t), g)" and "\<not> recognized tg t"
      and "st' = Status_TypeError ''Unrecognized expression type.''"
      and "w' = \<lparr>heap = heap w, out = None, globals = g\<rparr>"
proof -
  from assms obtain st t g where c: "create es (globals w) = ((st, Some t), g)"
    by (rule CreateCodeGenerator_returns)
  show thesis
  proof (cases "selected tg t s es fs")
    case None
    with c assms default show thesis
      by (simp add: CreateCodeGenerator_default [where create = create] selected_None)
  next
    case (Some obj)
    then have "recognized tg t"
      using selected_None [of tg t s es fs] by simp
    with c assms Some constructed show thesis
      by (simp add: CreateCodeGenerator_construct [where create = create])
  qed
qed

text \<open>Releasing a handle: one owner less for the object it refers to, nothing else.\<close>

lemma length_release: "length (release h uc) = length uc"
  by (simp add: release_def split: option.splits)

lemma release_append:
  "valid_handle uc h \<Longrightarrow> release h (uc @ xs) = release h uc @ xs"
  by (auto simp: release_def valid_handle_def nth_append list_update_append1
      split: option.splits)

lemma nth_release:
  "a < length uc \<Longrightarrow> release h uc ! a = (if h = Some a then uc ! a - 1 else uc ! a)"
  by (auto simp: release_def split: option.splits)

lemma valid_handle_release: "valid_handle (release h uc) k = valid_handle uc k"
  by (simp add: valid_handle_def length_release split: option.splits)

text \<open>The call as the caller sees it, by branch.\<close>

lemma call_construct:
  assumes "create (caller_exprs p) (globals (store p)) = ((st, Some t), g)"
    and "selected tg t (caller_schema p) (caller_exprs p) (caller_ret_types p) = Some obj"
  shows "call_CreateCodeGenerator tg create p =
     Inr (st, p\<lparr>store := \<lparr>heap = heap (store p) @ [obj],
                          out = Some (length (heap (store p))), globals = g\<rparr>,
                use_count := release (out (store p)) (use_count p @ [1])\<rparr>)"
  using CreateCodeGenerator_construct [where create = create and w = "store p", OF assms]
  by (simp add: call_CreateCodeGenerator_def)

lemma call_default:
  assumes "create (caller_exprs p) (globals (store p)) = ((st, Some t), g)"
    and "selected tg t (caller_schema p) (caller_exprs p) (caller_ret_types p) = None"
  shows "call_CreateCodeGenerator tg create p =
     Inr (Status_TypeError ''Unrecognized expression type.'',
          p\<lparr>store := \<lparr>heap = heap (store p), out = None, globals = g\<rparr>,
            use_count := release (out (store p)) (use_count p)\<rparr>)"
  using CreateCodeGenerator_default [where create = create and w = "store p", OF assms]
  by (simp add: call_CreateCodeGenerator_def)

lemma call_returns:
  assumes "call_CreateCodeGenerator tg create p = Inr (st', p')"
  obtains w' where
    "CreateCodeGenerator tg create (caller_schema p) (caller_exprs p) (caller_ret_types p)
       (store p) = Inr (st', w')"
    and "p' = p\<lparr>store := w',
               use_count := release (out (store p))
                 (use_count p @ replicate (length (heap w') - length (heap (store p))) 1)\<rparr>"
  using assms
  by (auto simp: call_CreateCodeGenerator_def split: sum.splits)

lemmas program_simps =
  sample_inspection_def counting_classifier_def owning_program_def fresh_program_def
  inspecting_def consistent_def valid_handle_def release_def

lemmas sample_simps =
  const_classifier_def sample_tags_def empty_world_def used_world_def
  case_labels_distinct_def recognized_def ok_def Status_TypeError_def

subsection \<open>The claims\<close>

text \<open>
  C1. When the classifier produces one of the three recognized tags, the factory
  constructs exactly one generator, of the class that belongs to the tag
  (\<^verbatim>\<open>ARROW_COMPUTE\<close>: \<^verbatim>\<open>ArrowComputeCodeGenerator\<close>, \<^verbatim>\<open>GANDIVA\<close>:
  \<^verbatim>\<open>GandivaCodeGenerator\<close>, \<^verbatim>\<open>COMPUTE_EXT\<close>: \<^verbatim>\<open>ComputeExtCodeGenerator\<close>), from
  exactly the schema, the expressions and the return types passed in: the heap grows by
  that one object and \<^verbatim>\<open>*out\<close> refers to it.
\<close>

theorem C1_matching_generator:
  assumes "case_labels_distinct tg"
    and "create es (globals w) = ((st, Some t), g)"
  shows "(t = ARROW_COMPUTE tg \<longrightarrow>
            CreateCodeGenerator tg create s es fs w =
              Inr (st, \<lparr>heap = heap w @ [ArrowComputeCodeGenerator s es fs],
                        out = Some (length (heap w)), globals = g\<rparr>)) \<and>
         (t = GANDIVA tg \<longrightarrow>
            CreateCodeGenerator tg create s es fs w =
              Inr (st, \<lparr>heap = heap w @ [GandivaCodeGenerator s es fs],
                        out = Some (length (heap w)), globals = g\<rparr>)) \<and>
         (t = COMPUTE_EXT tg \<longrightarrow>
            CreateCodeGenerator tg create s es fs w =
              Inr (st, \<lparr>heap = heap w @ [ComputeExtCodeGenerator s es fs],
                        out = Some (length (heap w)), globals = g\<rparr>))"
proof -
  note sel = selected_cases [OF assms(1), of s es fs]
  have "t = ARROW_COMPUTE tg \<Longrightarrow> selected tg t s es fs = Some (ArrowComputeCodeGenerator s es fs)"
    and "t = GANDIVA tg \<Longrightarrow> selected tg t s es fs = Some (GandivaCodeGenerator s es fs)"
    and "t = COMPUTE_EXT tg \<Longrightarrow> selected tg t s es fs = Some (ComputeExtCodeGenerator s es fs)"
    using sel by simp_all
  then show ?thesis
    using CreateCodeGenerator_construct [where create = create and es = es and w = w, OF assms(2)]
    by blast
qed

theorem C1_matching_generator_witness:
  "case_labels_distinct sample_tags \<and>
   CreateCodeGenerator sample_tags (const_classifier (Status OK []) (Some 1))
       ''t'' [''a + b''] [''sum''] used_world =
     Inr (Status OK [],
          \<lparr>heap = heap used_world @ [ArrowComputeCodeGenerator ''t'' [''a + b''] [''sum'']],
           out = Some 1, globals = ()\<rparr>) \<and>
   CreateCodeGenerator sample_tags (const_classifier (Status OK []) (Some 2))
       ''t'' [''a + b''] [''sum''] used_world =
     Inr (Status OK [],
          \<lparr>heap = heap used_world @ [GandivaCodeGenerator ''t'' [''a + b''] [''sum'']],
           out = Some 1, globals = ()\<rparr>) \<and>
   CreateCodeGenerator sample_tags (const_classifier (Status OK []) (Some 3))
       ''t'' [''a + b''] [''sum''] used_world =
     Inr (Status OK [],
          \<lparr>heap = heap used_world @ [ComputeExtCodeGenerator ''t'' [''a + b''] [''sum'']],
           out = Some 1, globals = ()\<rparr>)"
proof -
  have d: "case_labels_distinct sample_tags"
    by (simp add: sample_simps)
  have c: "const_classifier (Status OK []) (Some k) [''a + b''] (globals used_world) =
             ((Status OK [], Some k), ())" for k :: cint
    by (simp add: const_classifier_def)
  note inst = C1_matching_generator
    [where tg = sample_tags and es = "[''a + b'']" and w = used_world
       and s = "''t''" and fs = "[''sum'']", OF d]
  show ?thesis
    using d
      inst [where create = "const_classifier (Status OK []) (Some 1)", OF c]
      inst [where create = "const_classifier (Status OK []) (Some 2)", OF c]
      inst [where create = "const_classifier (Status OK []) (Some 3)", OF c]
    by (simp add: sample_tags_def used_world_def)
qed

text \<open>
  C2. When the classifier produces a tag that is none of the three recognized ones, the
  call returns with \<^verbatim>\<open>*out\<close> null and a status of kind TypeError whose message is
  "Unrecognized expression type."; nothing is allocated.
\<close>

theorem C2_unrecognized_tag:
  assumes "create es (globals w) = ((st, Some t), g)"
    and "\<not> recognized tg t"
  shows "\<exists>st' w'. CreateCodeGenerator tg create s es fs w = Inr (st', w') \<and>
           out w' = None \<and> heap w' = heap w \<and> \<not> ok st' \<and>
           code st' = TypeError \<and> message st' = ''Unrecognized expression type.''"
proof -
  have "selected tg t s es fs = None"
    using assms(2) by (simp add: selected_None)
  from CreateCodeGenerator_default [where create = create and es = es and w = w, OF assms(1) this]
  show ?thesis by (simp add: Status_TypeError_def ok_def)
qed

theorem C2_unrecognized_tag_witness:
  "\<not> recognized sample_tags 7 \<and>
   (\<exists>st' w'. CreateCodeGenerator sample_tags (const_classifier (Status OK []) (Some 7))
        ''t'' [''undefined_function(a)''] [''r''] used_world = Inr (st', w') \<and>
      out w' = None \<and> heap w' = heap used_world \<and> \<not> ok st' \<and>
      code st' = TypeError \<and> message st' = ''Unrecognized expression type.'')"
proof -
  have r: "\<not> recognized sample_tags 7"
    by (simp add: sample_simps)
  have c: "const_classifier (Status OK []) (Some 7) [''undefined_function(a)'']
             (globals used_world) = ((Status OK [], Some 7), ())"
    by (simp add: const_classifier_def)
  show ?thesis
    using r
      C2_unrecognized_tag
        [where create = "const_classifier (Status OK []) (Some 7)" and w = used_world
           and es = "[''undefined_function(a)'']" and s = "''t''" and fs = "[''r'']", OF c r]
    by simp
qed

text \<open>
  C3, as stated: when the classifier returns an error status, no generator is constructed
  and \<^verbatim>\<open>*out\<close> is null, whatever tag comes with the failing status. The function never
  looks at the status before the switch, so this fails: here the classifier fails with a
  TypeError and leaves the label \<^verbatim>\<open>ARROW_COMPUTE\<close> in \<^verbatim>\<open>codegen_type\<close>, and the call
  allocates an \<^verbatim>\<open>ArrowComputeCodeGenerator\<close> and returns the failing status with a
  non-null handle.
\<close>

theorem C3_failing_status_counterexample:
  "\<not> ok (Status TypeError ''no backend'') \<and>
   CreateCodeGenerator sample_tags (const_classifier (Status TypeError ''no backend'') (Some 1))
       ''t'' [''undefined_function(a)''] [''r''] empty_world =
     Inr (Status TypeError ''no backend'',
          \<lparr>heap = [ArrowComputeCodeGenerator ''t'' [''undefined_function(a)''] [''r'']],
           out = Some 0, globals = ()\<rparr>)"
  by (simp add: CreateCodeGenerator_def make_shared_def sample_simps)

text \<open>
  C3, amended: when the classifier returns an error status and has stored a tag, the
  call returns an error status too. If the tag is none of the three recognized ones, no
  generator is constructed and \<^verbatim>\<open>*out\<close> is null (the status is the new TypeError). If
  the tag is a recognized one, the switch constructs the generator of the class that
  belongs to the tag all the same, from the schema, the expressions and the return
  types passed in; \<^verbatim>\<open>*out\<close> refers to it, and the classifier's failing status is
  returned unchanged.
\<close>

theorem C3_failing_status:
  assumes "case_labels_distinct tg"
    and "create es (globals w) = ((st, Some t), g)"
    and "\<not> ok st"
  shows "(\<exists>st' w'. CreateCodeGenerator tg create s es fs w = Inr (st', w') \<and> \<not> ok st') \<and>
         (\<not> recognized tg t \<longrightarrow>
            CreateCodeGenerator tg create s es fs w =
              Inr (Status TypeError ''Unrecognized expression type.'',
                   \<lparr>heap = heap w, out = None, globals = g\<rparr>)) \<and>
         (t = ARROW_COMPUTE tg \<longrightarrow>
            CreateCodeGenerator tg create s es fs w =
              Inr (st, \<lparr>heap = heap w @ [ArrowComputeCodeGenerator s es fs],
                        out = Some (length (heap w)), globals = g\<rparr>)) \<and>
         (t = GANDIVA tg \<longrightarrow>
            CreateCodeGenerator tg create s es fs w =
              Inr (st, \<lparr>heap = heap w @ [GandivaCodeGenerator s es fs],
                        out = Some (length (heap w)), globals = g\<rparr>)) \<and>
         (t = COMPUTE_EXT tg \<longrightarrow>
            CreateCodeGenerator tg create s es fs w =
              Inr (st, \<lparr>heap = heap w @ [ComputeExtCodeGenerator s es fs],
                        out = Some (length (heap w)), globals = g\<rparr>))"
proof -
  note sel = selected_cases [OF assms(1), of s es fs]
  note con = CreateCodeGenerator_construct [where create = create and es = es and w = w, OF assms(2)]
  have a: "t = ARROW_COMPUTE tg \<Longrightarrow>
      CreateCodeGenerator tg create s es fs w =
        Inr (st, \<lparr>heap = heap w @ [ArrowComputeCodeGenerator s es fs],
                  out = Some (length (heap w)), globals = g\<rparr>)"
    using sel con by simp
  have b: "t = GANDIVA tg \<Longrightarrow>
      CreateCodeGenerator tg create s es fs w =
        Inr (st, \<lparr>heap = heap w @ [GandivaCodeGenerator s es fs],
                  out = Some (length (heap w)), globals = g\<rparr>)"
    using sel con by simp
  have c: "t = COMPUTE_EXT tg \<Longrightarrow>
      CreateCodeGenerator tg create s es fs w =
        Inr (st, \<lparr>heap = heap w @ [ComputeExtCodeGenerator s es fs],
                  out = Some (length (heap w)), globals = g\<rparr>)"
    using sel con by simp
  have d: "\<not> recognized tg t \<Longrightarrow>
      CreateCodeGenerator tg create s es fs w =
        Inr (Status TypeError ''Unrecognized expression type.'',
             \<lparr>heap = heap w, out = None, globals = g\<rparr>)"
    using CreateCodeGenerator_default [where create = create and es = es and w = w, OF assms(2)]
    by (simp add: selected_None Status_TypeError_def)
  have "\<exists>st' w'. CreateCodeGenerator tg create s es fs w = Inr (st', w') \<and> \<not> ok st'"
  proof (cases "recognized tg t")
    case True
    with a b c assms(3) show ?thesis
      by (auto simp: recognized_def)
  next
    case False
    with d show ?thesis
      by (simp add: ok_def)
  qed
  with a b c d show ?thesis
    by blast
qed

theorem C3_failing_status_witness:
  "case_labels_distinct sample_tags \<and>
   \<not> ok (Status TypeError ''no backend'') \<and> \<not> recognized sample_tags 7 \<and>
   CreateCodeGenerator sample_tags (const_classifier (Status TypeError ''no backend'') (Some 7))
       ''t'' [''undefined_function(a)''] [''r''] used_world =
     Inr (Status TypeError ''Unrecognized expression type.'',
          \<lparr>heap = heap used_world, out = None, globals = ()\<rparr>) \<and>
   CreateCodeGenerator sample_tags (const_classifier (Status TypeError ''no backend'') (Some 1))
       ''t'' [''undefined_function(a)''] [''r''] used_world =
     Inr (Status TypeError ''no backend'',
          \<lparr>heap = heap used_world @
                    [ArrowComputeCodeGenerator ''t'' [''undefined_function(a)''] [''r'']],
           out = Some 1, globals = ()\<rparr>) \<and>
   CreateCodeGenerator sample_tags (const_classifier (Status TypeError ''no backend'') (Some 2))
       ''t'' [''undefined_function(a)''] [''r''] used_world =
     Inr (Status TypeError ''no backend'',
          \<lparr>heap = heap used_world @
                    [GandivaCodeGenerator ''t'' [''undefined_function(a)''] [''r'']],
           out = Some 1, globals = ()\<rparr>) \<and>
   CreateCodeGenerator sample_tags (const_classifier (Status TypeError ''no backend'') (Some 3))
       ''t'' [''undefined_function(a)''] [''r''] used_world =
     Inr (Status TypeError ''no backend'',
          \<lparr>heap = heap used_world @
                    [ComputeExtCodeGenerator ''t'' [''undefined_function(a)''] [''r'']],
           out = Some 1, globals = ()\<rparr>)"
proof -
  have d: "case_labels_distinct sample_tags"
    by (simp add: sample_simps)
  have n: "\<not> ok (Status TypeError ''no backend'')"
    by (simp add: ok_def)
  have r: "\<not> recognized sample_tags 7"
    by (simp add: sample_simps)
  have c: "const_classifier (Status TypeError ''no backend'') (Some k)
             [''undefined_function(a)''] (globals used_world) =
           ((Status TypeError ''no backend'', Some k), ())" for k :: cint
    by (simp add: const_classifier_def)
  have l: "length (heap used_world) = 1"
    by (simp add: used_world_def)
  note inst = C3_failing_status
    [where tg = sample_tags and w = used_world and es = "[''undefined_function(a)'']"
       and s = "''t''" and fs = "[''r'']", OF d]
  show ?thesis
    using d n r
      inst [where create = "const_classifier (Status TypeError ''no backend'') (Some 7)", OF c n]
      inst [where create = "const_classifier (Status TypeError ''no backend'') (Some 1)", OF c n]
      inst [where create = "const_classifier (Status TypeError ''no backend'') (Some 2)", OF c n]
      inst [where create = "const_classifier (Status TypeError ''no backend'') (Some 3)", OF c n]
    by (simp add: l sample_tags_def)
qed

text \<open>
  C4. A call constructs at most one generator. When the tag is a recognized one, exactly
  one object is allocated, by one of the three constructors on the arguments passed in,
  and \<^verbatim>\<open>*out\<close> refers to it; when it is not, nothing is allocated and \<^verbatim>\<open>*out\<close> is null.
  There is no second attempt with another constructor. In both cases \<^verbatim>\<open>*out\<close> is null or
  the address of an allocated object.
\<close>

theorem C4_at_most_one_generator:
  assumes "create es (globals w) = ((st, Some t), g)"
  shows "\<exists>st' w'. CreateCodeGenerator tg create s es fs w = Inr (st', w') \<and>
           (recognized tg t \<longrightarrow>
              (\<exists>obj. heap w' = heap w @ [obj] \<and>
                 obj \<in> {ArrowComputeCodeGenerator s es fs, GandivaCodeGenerator s es fs,
                        ComputeExtCodeGenerator s es fs} \<and>
                 out w' = Some (length (heap w)))) \<and>
           (\<not> recognized tg t \<longrightarrow> heap w' = heap w \<and> out w' = None) \<and>
           length (heap w') \<le> Suc (length (heap w)) \<and>
           (out w' = None \<or> (\<exists>a. out w' = Some a \<and> a < length (heap w')))"
proof (cases "recognized tg t")
  case True
  from selected_Some [OF True, of s es fs] obtain obj
    where sel: "selected tg t s es fs = Some obj"
      and kind: "obj \<in> {ArrowComputeCodeGenerator s es fs, GandivaCodeGenerator s es fs,
                        ComputeExtCodeGenerator s es fs}"
    by blast
  from CreateCodeGenerator_construct [where create = create and es = es and w = w, OF assms sel]
    True kind
  show ?thesis by simp
next
  case False
  then have "selected tg t s es fs = None"
    by (simp add: selected_None)
  from CreateCodeGenerator_default [where create = create and es = es and w = w, OF assms this]
    False
  show ?thesis by simp
qed

theorem C4_at_most_one_generator_witness:
  "recognized sample_tags 3 \<and> \<not> recognized sample_tags 0 \<and>
   (\<exists>st' w'. CreateCodeGenerator sample_tags (const_classifier (Status OK []) (Some 3))
          ''t'' [''custom_udf(a)''] [''r''] used_world = Inr (st', w') \<and>
      (\<exists>obj. heap w' = heap used_world @ [obj] \<and>
         obj \<in> {ArrowComputeCodeGenerator ''t'' [''custom_udf(a)''] [''r''],
                GandivaCodeGenerator ''t'' [''custom_udf(a)''] [''r''],
                ComputeExtCodeGenerator ''t'' [''custom_udf(a)''] [''r'']} \<and>
         out w' = Some 1)) \<and>
   (\<exists>st' w'. CreateCodeGenerator sample_tags (const_classifier (Status OK []) (Some 0))
          ''t'' [''custom_udf(a)''] [''r''] used_world = Inr (st', w') \<and>
      heap w' = heap used_world \<and> out w' = None)"
proof -
  have r: "recognized sample_tags 3" "\<not> recognized sample_tags 0"
    by (simp_all add: sample_simps)
  have c: "const_classifier (Status OK []) (Some k) [''custom_udf(a)''] (globals used_world) =
           ((Status OK [], Some k), ())" for k :: cint
    by (simp add: const_classifier_def)
  note inst = C4_at_most_one_generator
    [where tg = sample_tags and w = used_world and es = "[''custom_udf(a)'']"
       and s = "''t''" and fs = "[''r'']"]
  have l: "length (heap used_world) = 1"
    by (simp add: used_world_def)
  show ?thesis
    using r
      inst [where create = "const_classifier (Status OK []) (Some 3)", OF c]
      inst [where create = "const_classifier (Status OK []) (Some 0)", OF c]
    by (simp add: l) blast
qed

text \<open>
  C5. For a non-empty batch that the classifier tags \<^verbatim>\<open>ARROW_COMPUTE\<close> (the native
  vectorized backend) with a success status, the call returns that status and a
  non-null handle.
\<close>

theorem C5_native_batch_nonnull:
  assumes "es \<noteq> []"
    and "create es (globals w) = ((st, Some (ARROW_COMPUTE tg)), g)"
    and "ok st"
  shows "\<exists>w'. CreateCodeGenerator tg create s es fs w = Inr (st, w') \<and> out w' \<noteq> None"
proof -
  have "selected tg (ARROW_COMPUTE tg) s es fs = Some (ArrowComputeCodeGenerator s es fs)"
    by (simp add: selected_def)
  from CreateCodeGenerator_construct [where create = create and es = es and w = w, OF assms(2) this]
  show ?thesis by simp
qed

theorem C5_native_batch_nonnull_witness:
  "[''a + b''] \<noteq> [] \<and> ok (Status OK []) \<and>
   (\<exists>w'. CreateCodeGenerator sample_tags
          (const_classifier (Status OK []) (Some (ARROW_COMPUTE sample_tags)))
          ''a: int32, b: int32'' [''a + b''] [''sum: int32''] empty_world =
            Inr (Status OK [], w') \<and>
      out w' \<noteq> None)"
proof -
  have e: "[''a + b''] \<noteq> []"
    by simp
  have o: "ok (Status OK [])"
    by (simp add: ok_def)
  have c: "const_classifier (Status OK []) (Some (ARROW_COMPUTE sample_tags)) [''a + b'']
             (globals empty_world) = ((Status OK [], Some (ARROW_COMPUTE sample_tags)), ())"
    by (simp add: const_classifier_def)
  show ?thesis
    using e o
      C5_native_batch_nonnull
        [where create = "const_classifier (Status OK []) (Some (ARROW_COMPUTE sample_tags))"
           and tg = sample_tags and w = empty_world and s = "''a: int32, b: int32''"
           and fs = "[''sum: int32'']", OF e c o]
    by simp
qed

text \<open>
  C7. When the tag is one of the three recognized ones, the status returned is the
  status the classifier returned, unchanged, be it a success or a failure. Only on an
  unrecognized tag is it replaced, by the new TypeError.
\<close>

theorem C7_status_passed_through:
  assumes "create es (globals w) = ((st, Some t), g)"
  shows "(recognized tg t \<longrightarrow>
            (\<exists>w'. CreateCodeGenerator tg create s es fs w = Inr (st, w'))) \<and>
         (\<not> recognized tg t \<longrightarrow>
            (\<exists>w'. CreateCodeGenerator tg create s es fs w =
                    Inr (Status_TypeError ''Unrecognized expression type.'', w')))"
proof (cases "selected tg t s es fs")
  case None
  then have "\<not> recognized tg t"
    by (simp add: selected_None)
  with CreateCodeGenerator_default [where create = create and es = es and w = w, OF assms None]
  show ?thesis by simp
next
  case (Some obj)
  then have "recognized tg t"
    using selected_None [of tg t s es fs] by simp
  with CreateCodeGenerator_construct [where create = create and es = es and w = w, OF assms Some]
  show ?thesis by simp
qed

theorem C7_status_passed_through_witness:
  "recognized sample_tags 2 \<and> \<not> recognized sample_tags 4 \<and>
   (\<exists>w'. CreateCodeGenerator sample_tags (const_classifier (Status Invalid ''odd'') (Some 2))
          ''t'' [''x * y''] [''prod''] empty_world = Inr (Status Invalid ''odd'', w')) \<and>
   (\<exists>w'. CreateCodeGenerator sample_tags (const_classifier (Status Invalid ''odd'') (Some 4))
          ''t'' [''x * y''] [''prod''] empty_world =
            Inr (Status TypeError ''Unrecognized expression type.'', w'))"
proof -
  have r: "recognized sample_tags 2" "\<not> recognized sample_tags 4"
    by (simp_all add: sample_simps)
  have c: "const_classifier (Status Invalid ''odd'') (Some k) [''x * y''] (globals empty_world) =
           ((Status Invalid ''odd'', Some k), ())" for k :: cint
    by (simp add: const_classifier_def)
  note inst = C7_status_passed_through
    [where tg = sample_tags and w = empty_world and es = "[''x * y'']"
       and s = "''t''" and fs = "[''prod'']"]
  show ?thesis
    using r
      inst [where create = "const_classifier (Status Invalid ''odd'') (Some 2)", OF c]
      inst [where create = "const_classifier (Status Invalid ''odd'') (Some 4)", OF c]
    by (simp add: Status_TypeError_def)
qed

text \<open>
  C6. The tag the switch reads has been stored by the classifier on every path of the
  classifier, the failing one included. The source declares \<^verbatim>\<open>int codegen_type;\<close>
  without an initialiser and reads it right after the call, so this rests on
  \<^verbatim>\<open>ExprVisitor::create\<close> alone, which is taken here as the specification describes
  it (\<open>spec_create\<close>): it produces exactly one tag per call. With that classifier the
  call never reads an unwritten tag: it always returns.
\<close>

theorem C6_tag_stored_before_read:
  "(\<exists>st t. spec_create tg u r es (globals w) = ((st, Some t), globals w)) \<and>
   CreateCodeGenerator tg (spec_create tg u r) s es fs w \<noteq> Inl UninitialisedRead \<and>
   (\<exists>st' w'. CreateCodeGenerator tg (spec_create tg u r) s es fs w = Inr (st', w'))"
proof -
  obtain bt st where cl: "classify r es = (bt, st)"
    by (cases "classify r es")
  then have c: "spec_create tg u r es (globals w) = ((st, Some (tag_value tg u bt)), globals w)"
    by (simp add: spec_create_def)
  have "\<exists>st' w'. CreateCodeGenerator tg (spec_create tg u r) s es fs w = Inr (st', w')"
  proof (cases "selected tg (tag_value tg u bt) s es fs")
    case None
    from CreateCodeGenerator_default
      [where create = "spec_create tg u r" and es = es and w = w, OF c None]
    show ?thesis by simp
  next
    case (Some obj)
    from CreateCodeGenerator_construct
      [where create = "spec_create tg u r" and es = es and w = w, OF c Some]
    show ?thesis by simp
  qed
  with c show ?thesis by auto
qed

text \<open>
  An instance on the failing path of the classifier: no test of the sample vocabulary
  accepts \<^verbatim>\<open>undefined_function(a)\<close>, classification fails, and the call still returns.
\<close>

theorem C6_tag_stored_before_read_witness:
  "classify sample_vocabulary [''undefined_function(a)''] =
     (Unclassified, Status TypeError ''no backend'') \<and>
   CreateCodeGenerator sample_tags (spec_create sample_tags 0 sample_vocabulary)
       ''t'' [''undefined_function(a)''] [''r''] empty_world \<noteq> Inl UninitialisedRead"
  using C6_tag_stored_before_read
    [of sample_tags 0 sample_vocabulary "[''undefined_function(a)'']" empty_world
        "''t''" "[''r'']"]
  by (simp add: classify_def sample_vocabulary_def Status_TypeError_def)

text \<open>
  C8, as stated: for every triple of arguments, two successive calls return two distinct,
  newly allocated generator handles. This fails for a batch whose tag is not a recognized
  one: here the classification of \<^verbatim>\<open>undefined_function(a)\<close> fails with an
  unrecognized tag, both calls allocate nothing, and both leave a null handle.
\<close>

theorem C8_two_calls_counterexample:
  "call_twice sample_tags (inspecting sample_inspection) None fresh_program =
     Inr ((Status TypeError ''Unrecognized expression type.'', None),
          (Status TypeError ''Unrecognized expression type.'', None),
          fresh_program)"
  by (simp add: call_twice_def call_CreateCodeGenerator_def CreateCodeGenerator_def
      make_shared_def sample_simps program_simps)

text \<open>
  C8, amended: for every triple of arguments whose classification yields one of the
  three recognized tags, two successive calls with identical arguments return the same
  status and two distinct, independently owned, freshly allocated generator handles of
  the same concrete kind; no state written by the first call is read by the second.

  The classifier, whose body is not available, is the one of the specification
  (\<open>inspecting f\<close>). Each call goes through a handle variable of its own, and the
  caller's state is consistent before the calls. In the statement:
  \<^item> the handles are \<open>a1\<close> and \<open>a2\<close>, the first address free before the first call and
    the next one, so each is the address of an object its own call allocated;
  \<^item> the two objects are the same value \<open>obj\<close>: one class, built from the caller's
    schema, expressions and return types;
  \<^item> each object has exactly one owner, and giving up either handle destroys its own
    object and leaves the other object with its owner;
  \<^item> from any state whatever, a call with these arguments returns this status and
    builds this object: nothing the first call wrote (the heap, \<^verbatim>\<open>*out\<close>) decides
    what the second call returns or builds.
\<close>

theorem C8_two_calls:
  assumes "f (caller_exprs p) = (st, Some t)"
    and "recognized tg t"
    and "consistent p"
    and "valid_handle (use_count p) second"
  shows "\<exists>a1 a2 obj p2.
           call_twice tg (inspecting f) second p = Inr ((st, Some a1), (st, Some a2), p2) \<and>
           a1 \<noteq> a2 \<and> a1 = length (heap (store p)) \<and> a2 = Suc (length (heap (store p))) \<and>
           a1 < length (heap (store p2)) \<and> a2 < length (heap (store p2)) \<and>
           heap (store p2) ! a1 = obj \<and> heap (store p2) ! a2 = obj \<and>
           obj \<in> {ArrowComputeCodeGenerator (caller_schema p) (caller_exprs p) (caller_ret_types p),
                  GandivaCodeGenerator (caller_schema p) (caller_exprs p) (caller_ret_types p),
                  ComputeExtCodeGenerator (caller_schema p) (caller_exprs p) (caller_ret_types p)} \<and>
           length (use_count p2) = length (heap (store p2)) \<and>
           use_count p2 ! a1 = 1 \<and> use_count p2 ! a2 = 1 \<and>
           release (Some a1) (use_count p2) ! a1 = 0 \<and>
           release (Some a1) (use_count p2) ! a2 = 1 \<and>
           release (Some a2) (use_count p2) ! a2 = 0 \<and>
           release (Some a2) (use_count p2) ! a1 = 1 \<and>
           (\<forall>v. \<exists>v'. CreateCodeGenerator tg (inspecting f)
                         (caller_schema p) (caller_exprs p) (caller_ret_types p) v =
                       Inr (st, v') \<and>
                     heap v' = heap v @ [obj] \<and> out v' = Some (length (heap v)))"
proof -
  define n where "n = length (heap (store p))"
  define xs where "xs = release second (release (out (store p)) (use_count p))"
  from selected_Some [OF assms(2), of "caller_schema p" "caller_exprs p" "caller_ret_types p"]
  obtain obj
    where sel: "selected tg t (caller_schema p) (caller_exprs p) (caller_ret_types p) = Some obj"
      and kind: "obj \<in> {ArrowComputeCodeGenerator (caller_schema p) (caller_exprs p) (caller_ret_types p),
                  GandivaCodeGenerator (caller_schema p) (caller_exprs p) (caller_ret_types p),
                  ComputeExtCodeGenerator (caller_schema p) (caller_exprs p) (caller_ret_types p)}"
    by blast
  have len: "length (use_count p) = n" and vh: "valid_handle (use_count p) (out (store p))"
    using assms(3) by (simp_all add: consistent_def n_def)
  have lxs: "length xs = n"
    by (simp add: xs_def length_release len)
  \<comment> \<open>the first call\<close>
  define p1 where
    "p1 = p\<lparr>store := \<lparr>heap = heap (store p) @ [obj], out = Some n,
                       globals = globals (store p)\<rparr>,
             use_count := release (out (store p)) (use_count p) @ [1]\<rparr>"
  have c1: "inspecting f (caller_exprs p) (globals (store p)) =
              ((st, Some t), globals (store p))"
    by (simp add: inspecting_def assms(1))
  have first: "call_CreateCodeGenerator tg (inspecting f) p = Inr (st, p1)"
    using call_construct [where create = "inspecting f" and p = p, OF c1 sel]
    by (simp add: p1_def n_def release_append [OF vh])
  \<comment> \<open>the second call, through the other handle variable\<close>
  define q where "q = p1\<lparr>store := (store p1)\<lparr>out := second\<rparr>\<rparr>"
  define p2 where
    "p2 = q\<lparr>store := \<lparr>heap = heap (store p) @ [obj, obj], out = Some (Suc n),
                       globals = globals (store p)\<rparr>,
             use_count := xs @ [1, 1]\<rparr>"
  have c2: "inspecting f (caller_exprs q) (globals (store q)) =
              ((st, Some t), globals (store p))"
    by (simp add: inspecting_def assms(1) q_def p1_def)
  have sel2: "selected tg t (caller_schema q) (caller_exprs q) (caller_ret_types q) = Some obj"
    using sel by (simp add: q_def p1_def)
  have vs: "valid_handle (release (out (store p)) (use_count p)) second"
    using assms(4) by (simp add: valid_handle_release)
  then have vs': "valid_handle (release (out (store p)) (use_count p) @ [1]) second"
    by (auto simp: valid_handle_def split: option.splits)
  have "release second ((release (out (store p)) (use_count p) @ [1]) @ [1]) = xs @ [1, 1]"
    using release_append [OF vs', of "[1]"] release_append [OF vs, of "[1]"]
    by (simp add: xs_def)
  then have second: "call_CreateCodeGenerator tg (inspecting f) q = Inr (st, p2)"
    using call_construct [where create = "inspecting f" and p = q, OF c2 sel2]
    by (simp add: p2_def q_def p1_def n_def)
  have twice: "call_twice tg (inspecting f) second p =
                 Inr ((st, Some n), (st, Some (Suc n)), p2)"
    using first second
    by (simp add: call_twice_def q_def [symmetric]) (simp add: p1_def p2_def q_def)
  \<comment> \<open>what the caller holds afterwards\<close>
  have heap2: "heap (store p2) = heap (store p) @ [obj, obj]"
    and uc2: "use_count p2 = xs @ [1, 1]"
    by (simp_all add: p2_def)
  have objs: "n < length (heap (store p2))" "Suc n < length (heap (store p2))"
    "heap (store p2) ! n = obj" "heap (store p2) ! Suc n = obj"
    by (simp_all add: heap2 n_def [symmetric] nth_append)
  have counts: "length (use_count p2) = length (heap (store p2))"
    "use_count p2 ! n = 1" "use_count p2 ! Suc n = 1"
    "release (Some n) (use_count p2) ! n = 0"
    "release (Some n) (use_count p2) ! Suc n = 1"
    "release (Some (Suc n)) (use_count p2) ! Suc n = 0"
    "release (Some (Suc n)) (use_count p2) ! n = 1"
    by (simp_all add: uc2 heap2 lxs n_def [symmetric] nth_release nth_append)
  \<comment> \<open>the outcome of a call does not depend on the state it starts in\<close>
  have anywhere: "\<exists>v'. CreateCodeGenerator tg (inspecting f)
                         (caller_schema p) (caller_exprs p) (caller_ret_types p) v =
                       Inr (st, v') \<and>
                     heap v' = heap v @ [obj] \<and> out v' = Some (length (heap v))" for v
  proof -
    have "inspecting f (caller_exprs p) (globals v) = ((st, Some t), globals v)"
      by (simp add: inspecting_def assms(1))
    from CreateCodeGenerator_construct [where create = "inspecting f" and w = v, OF this sel]
    show ?thesis by simp
  qed
  from anywhere
  have all: "\<forall>v. \<exists>v'. CreateCodeGenerator tg (inspecting f)
                         (caller_schema p) (caller_exprs p) (caller_ret_types p) v =
                       Inr (st, v') \<and>
                     heap v' = heap v @ [obj] \<and> out v' = Some (length (heap v))"
    by blast
  show ?thesis
    by (rule exI [where x = n], rule exI [where x = "Suc n"],
        rule exI [where x = obj], rule exI [where x = p2])
       (use twice objs kind counts all in \<open>simp add: n_def\<close>)
qed

theorem C8_two_calls_witness:
  "sample_inspection (caller_exprs owning_program) = (Status OK [], Some 2) \<and>
   recognized sample_tags 2 \<and> consistent owning_program \<and>
   valid_handle (use_count owning_program) None \<and>
   (\<exists>p2. call_twice sample_tags (inspecting sample_inspection) None owning_program =
            Inr ((Status OK [], Some 1), (Status OK [], Some 2), p2) \<and>
          heap (store p2) =
            heap (store owning_program) @
              [GandivaCodeGenerator ''t'' [''x * y''] [''prod''],
               GandivaCodeGenerator ''t'' [''x * y''] [''prod'']] \<and>
          use_count p2 = [0, 1, 1] \<and>
          release (Some 1) (use_count p2) = [0, 0, 1] \<and>
          release (Some 2) (use_count p2) = [0, 1, 0])"
proof -
  have i: "sample_inspection (caller_exprs owning_program) = (Status OK [], Some 2)"
    by (simp add: program_simps)
  have r: "recognized sample_tags 2"
    by (simp add: sample_simps)
  have c: "consistent owning_program"
    by (simp add: program_simps)
  have v: "valid_handle (use_count owning_program) None"
    by (simp add: valid_handle_def)
  have e: "call_twice sample_tags (inspecting sample_inspection) None owning_program =
      Inr ((Status OK [], Some 1), (Status OK [], Some 2),
           \<lparr>caller_schema = ''t'', caller_exprs = [''x * y''], caller_ret_types = [''prod''],
            store = \<lparr>heap = [ComputeExtCodeGenerator ''u'' [''custom_udf(a)''] [''r''],
                             GandivaCodeGenerator ''t'' [''x * y''] [''prod''],
                             GandivaCodeGenerator ''t'' [''x * y''] [''prod'']],
                     out = Some 2, globals = 5\<rparr>,
            use_count = [0, 1, 1]\<rparr>)"
    by (simp add: call_twice_def call_CreateCodeGenerator_def CreateCodeGenerator_def
        make_shared_def sample_simps program_simps)
  show ?thesis
    using i r c v e
      C8_two_calls [where f = sample_inspection and p = owning_program and tg = sample_tags
        and second = None, OF i r c v]
    by (simp add: owning_program_def release_def)
qed

text \<open>
  C9, as stated: the call has no side effect beyond allocating the one generator. This
  fails when \<^verbatim>\<open>*out\<close> is the only owner of an earlier generator: the assignment to
  \<^verbatim>\<open>*out\<close> releases that generator, its use count falls from one to zero, and it is
  destroyed.
\<close>

theorem C9_effects_counterexample:
  "consistent owning_program \<and> use_count owning_program ! 0 = 1 \<and>
   call_CreateCodeGenerator sample_tags (inspecting sample_inspection) owning_program =
     Inr (Status OK [],
          \<lparr>caller_schema = ''t'', caller_exprs = [''x * y''], caller_ret_types = [''prod''],
           store = \<lparr>heap = [ComputeExtCodeGenerator ''u'' [''custom_udf(a)''] [''r''],
                            GandivaCodeGenerator ''t'' [''x * y''] [''prod'']],
                    out = Some 1, globals = 5\<rparr>,
           use_count = [0, 1]\<rparr>)"
  by (simp add: call_CreateCodeGenerator_def CreateCodeGenerator_def make_shared_def
      sample_simps program_simps)

text \<open>
  C9, amended: the effects of a call that returns, made in a consistent state, are
  these and no others.
  \<^item> It performs no I/O and changes no global state of its own: the rest of the program
    state after the call is exactly what the call of \<^verbatim>\<open>ExprVisitor::create\<close> left,
    hence unchanged with a classifier that only inspects the expressions, as the
    specification describes it.
  \<^item> It allocates at most one generator object, built from the caller's schema,
    expressions and return types, with one owner.
  \<^item> It assigns \<^verbatim>\<open>*out\<close>, which releases the generator \<^verbatim>\<open>*out\<close> referred to before:
    that generator loses one owner (and is destroyed if that was its last). Every
    other generator allocated before keeps its owners.
  \<^item> The caller's schema, expression sequence and return type sequence are unchanged.
\<close>

theorem C9_effects_of_a_call:
  assumes "consistent p"
    and "call_CreateCodeGenerator tg create p = Inr (st', p')"
  shows "globals (store p') = snd (create (caller_exprs p) (globals (store p))) \<and>
         (\<forall>f. create = inspecting f \<longrightarrow> globals (store p') = globals (store p)) \<and>
         (heap (store p') = heap (store p) \<or>
          (\<exists>obj. heap (store p') = heap (store p) @ [obj] \<and>
             obj \<in> {ArrowComputeCodeGenerator (caller_schema p) (caller_exprs p) (caller_ret_types p),
                    GandivaCodeGenerator (caller_schema p) (caller_exprs p) (caller_ret_types p),
                    ComputeExtCodeGenerator (caller_schema p) (caller_exprs p) (caller_ret_types p)} \<and>
             use_count p' ! length (heap (store p)) = 1)) \<and>
         length (use_count p') = length (heap (store p')) \<and>
         (\<forall>a < length (heap (store p)).
            use_count p' ! a =
              (if out (store p) = Some a then use_count p ! a - 1 else use_count p ! a)) \<and>
         caller_schema p' = caller_schema p \<and> caller_exprs p' = caller_exprs p \<and>
         caller_ret_types p' = caller_ret_types p"
proof -
  have len: "length (use_count p) = length (heap (store p))"
    and vh: "valid_handle (use_count p) (out (store p))"
    using assms(1) by (simp_all add: consistent_def)
  from assms(2) obtain w' where
    body: "CreateCodeGenerator tg create (caller_schema p) (caller_exprs p) (caller_ret_types p)
             (store p) = Inr (st', w')"
    and p': "p' = p\<lparr>store := w',
               use_count := release (out (store p))
                 (use_count p @ replicate (length (heap w') - length (heap (store p))) 1)\<rparr>"
    by (rule call_returns)
  have frame: "caller_schema p' = caller_schema p" "caller_exprs p' = caller_exprs p"
    "caller_ret_types p' = caller_ret_types p" "store p' = w'"
    by (simp_all add: p')
  from body show ?thesis
  proof (cases rule: CreateCodeGenerator_Inr_cases)
    case (constructed st t g obj)
    from selected_Some [OF constructed(2), of "caller_schema p" "caller_exprs p" "caller_ret_types p"]
      constructed(3)
    have kind: "obj \<in> {ArrowComputeCodeGenerator (caller_schema p) (caller_exprs p) (caller_ret_types p),
                    GandivaCodeGenerator (caller_schema p) (caller_exprs p) (caller_ret_types p),
                    ComputeExtCodeGenerator (caller_schema p) (caller_exprs p) (caller_ret_types p)}"
      by simp
    have uc: "use_count p' = release (out (store p)) (use_count p) @ [1]"
      using constructed(5) by (simp add: p' release_append [OF vh])
    have g: "globals (store p') = snd (create (caller_exprs p) (globals (store p)))"
      using constructed(1,5) by (simp add: frame)
    have "heap (store p') = heap (store p) @ [obj]"
      using constructed(5) by (simp add: frame)
    moreover have "use_count p' ! length (heap (store p)) = 1"
      by (simp add: uc nth_append length_release len)
    moreover have "length (use_count p') = length (heap (store p'))"
      using constructed(5) by (simp add: uc frame length_release len)
    moreover have "\<forall>a < length (heap (store p)).
            use_count p' ! a =
              (if out (store p) = Some a then use_count p ! a - 1 else use_count p ! a)"
      by (simp add: uc nth_append length_release len nth_release)
    ultimately show ?thesis
      using g kind frame(1-3) by (auto simp: inspecting_def)
  next
    case (default st t g)
    have uc: "use_count p' = release (out (store p)) (use_count p)"
      using default(4) by (simp add: p')
    have g: "globals (store p') = snd (create (caller_exprs p) (globals (store p)))"
      using default(1,4) by (simp add: frame)
    have "heap (store p') = heap (store p)"
      using default(4) by (simp add: frame)
    moreover have "length (use_count p') = length (heap (store p'))"
      using default(4) by (simp add: uc frame length_release len)
    moreover have "\<forall>a < length (heap (store p)).
            use_count p' ! a =
              (if out (store p) = Some a then use_count p ! a - 1 else use_count p ! a)"
      by (simp add: uc len nth_release)
    ultimately show ?thesis
      using g frame(1-3) by (auto simp: inspecting_def)
  qed
qed

theorem C9_effects_of_a_call_witness:
  "consistent owning_program \<and>
   (\<exists>p'. call_CreateCodeGenerator sample_tags (inspecting sample_inspection) owning_program =
            Inr (Status OK [], p') \<and>
          globals (store p') = globals (store owning_program) \<and>
          heap (store p') =
            heap (store owning_program) @ [GandivaCodeGenerator ''t'' [''x * y''] [''prod'']] \<and>
          use_count p' = [0, 1] \<and>
          caller_schema p' = ''t'' \<and> caller_exprs p' = [''x * y''] \<and>
          caller_ret_types p' = [''prod'']) \<and>
   (\<exists>p'. call_CreateCodeGenerator sample_tags counting_classifier owning_program =
            Inr (Status OK [], p') \<and>
          globals (store p') = 6 \<and>
          snd (counting_classifier (caller_exprs owning_program)
                 (globals (store owning_program))) = 6 \<and>
          use_count p' = [0, 1])"
proof -
  have c: "consistent owning_program"
    by (simp add: program_simps)
  have r1: "call_CreateCodeGenerator sample_tags (inspecting sample_inspection) owning_program =
     Inr (Status OK [],
          \<lparr>caller_schema = ''t'', caller_exprs = [''x * y''], caller_ret_types = [''prod''],
           store = \<lparr>heap = [ComputeExtCodeGenerator ''u'' [''custom_udf(a)''] [''r''],
                            GandivaCodeGenerator ''t'' [''x * y''] [''prod'']],
                    out = Some 1, globals = 5\<rparr>,
           use_count = [0, 1]\<rparr>)"
    by (simp add: call_CreateCodeGenerator_def CreateCodeGenerator_def make_shared_def
        sample_simps program_simps)
  have r2: "call_CreateCodeGenerator sample_tags counting_classifier owning_program =
     Inr (Status OK [],
          \<lparr>caller_schema = ''t'', caller_exprs = [''x * y''], caller_ret_types = [''prod''],
           store = \<lparr>heap = [ComputeExtCodeGenerator ''u'' [''custom_udf(a)''] [''r''],
                            ComputeExtCodeGenerator ''t'' [''x * y''] [''prod'']],
                    out = Some 1, globals = 6\<rparr>,
           use_count = [0, 1]\<rparr>)"
    by (simp add: call_CreateCodeGenerator_def CreateCodeGenerator_def make_shared_def
        sample_simps program_simps)
  have g: "snd (counting_classifier (caller_exprs owning_program)
                 (globals (store owning_program))) = 6"
    by (simp add: program_simps)
  note t1 = C9_effects_of_a_call [OF c r1]
  note t2 = C9_effects_of_a_call [OF c r2]
  show ?thesis
    using c r1 r2 g t1 [THEN conjunct1] t2 [THEN conjunct1]
    by (simp add: owning_program_def)
qed

text \<open>
  C10. Every call that returns has assigned \<^verbatim>\<open>*out\<close>: afterwards it is null or the
  address of the object this call allocated, an address that was free before the call.
  What \<^verbatim>\<open>*out\<close> held before has no influence on the outcome, and a handle to an earlier
  object that it held is never what it holds afterwards.
\<close>

theorem C10_out_always_assigned:
  assumes "CreateCodeGenerator tg create s es fs w = Inr (st', w')"
  shows "(out w' = None \<or>
          out w' = Some (length (heap w)) \<and> length (heap w) < length (heap w')) \<and>
         CreateCodeGenerator tg create s es fs (w\<lparr>out := x\<rparr>) = Inr (st', w') \<and>
         ((\<exists>a. out w = Some a \<and> a < length (heap w)) \<longrightarrow> out w' \<noteq> out w)"
proof -
  have "out w' = None \<or>
        out w' = Some (length (heap w)) \<and> length (heap w) < length (heap w')"
    using assms by (cases rule: CreateCodeGenerator_Inr_cases) simp_all
  moreover
  have "CreateCodeGenerator tg create s es fs (w\<lparr>out := x\<rparr>) = Inr (st', w')"
    using assms by (simp add: CreateCodeGenerator_out_irrelevant)
  ultimately show ?thesis
    by auto
qed

theorem C10_out_always_assigned_witness:
  "(\<exists>a. out used_world = Some a \<and> a < length (heap used_world)) \<and>
   CreateCodeGenerator sample_tags (const_classifier (Status OK []) (Some 2))
       ''t'' [''a + b''] [''sum''] used_world =
     Inr (Status OK [],
          \<lparr>heap = heap used_world @ [GandivaCodeGenerator ''t'' [''a + b''] [''sum'']],
           out = Some 1, globals = ()\<rparr>) \<and>
   CreateCodeGenerator sample_tags (const_classifier (Status OK []) (Some 2))
       ''t'' [''a + b''] [''sum''] (used_world\<lparr>out := None\<rparr>) =
     Inr (Status OK [],
          \<lparr>heap = heap used_world @ [GandivaCodeGenerator ''t'' [''a + b''] [''sum'']],
           out = Some 1, globals = ()\<rparr>) \<and>
   Some 1 \<noteq> out used_world"
proof -
  have h: "\<exists>a. out used_world = Some a \<and> a < length (heap used_world)"
    by (simp add: used_world_def)
  have r: "CreateCodeGenerator sample_tags (const_classifier (Status OK []) (Some 2))
       ''t'' [''a + b''] [''sum''] used_world =
     Inr (Status OK [],
          \<lparr>heap = heap used_world @ [GandivaCodeGenerator ''t'' [''a + b''] [''sum'']],
           out = Some 1, globals = ()\<rparr>)"
    by (simp add: CreateCodeGenerator_def make_shared_def sample_simps)
  have l: "length (heap used_world) = 1" and o: "out used_world = Some 0"
    by (simp_all add: used_world_def)
  show ?thesis
    using h r
      C10_out_always_assigned
        [where create = "const_classifier (Status OK []) (Some 2)" and w = used_world
           and x = None, OF r]
    by (simp add: l o)
qed

end
